theory Spec2Isabelle
  imports Main "HOL-Library.AList"
begin

section \<open>Slackish: a chat-bot command router\<close>

text \<open>
  A shallow embedding of \<^verbatim>\<open>src/slackish.py\<close>. Python strings are modelled as
  \<^typ>\<open>string\<close>; the library functions \<^verbatim>\<open>str.lower\<close>, \<^verbatim>\<open>str.strip\<close>,
  \<^verbatim>\<open>shlex.split\<close> and \<^verbatim>\<open>re.search\<close> are modelled on ASCII text. Every
  \<^verbatim>\<open>raise\<close> of the source is a value of \<open>exn\<close>; a function that may raise after
  having changed the session returns the exception together with the session it leaves behind.
\<close>

subsection \<open>Exceptions\<close>

text \<open>
  The exception classes the code can meet, up to what its two \<^verbatim>\<open>except\<close> clauses
  tell apart: \<^verbatim>\<open>except KeyError\<close> in \<^verbatim>\<open>command_to_fn_call\<close> and
  \<^verbatim>\<open>except Exception\<close> in \<^verbatim>\<open>handle\<close>. \<open>BaseOnly\<close> stands for a
  \<^verbatim>\<open>BaseException\<close> that is not an \<^verbatim>\<open>Exception\<close> (\<^verbatim>\<open>SystemExit\<close>,
  \<^verbatim>\<open>KeyboardInterrupt\<close>).
\<close>

datatype exn =
    KeyError
  | IndexError
  | ValueError
  | AttributeError
  | TypeError
  | OtherException string
  | BaseOnly string

fun is_Exception :: "exn \<Rightarrow> bool" where
  "is_Exception (BaseOnly _) = False"
| "is_Exception _ = True"

subsection \<open>Library functions on strings\<close>

definition lower_char :: "char \<Rightarrow> char" where
  "lower_char c =
     (let n = (of_char c :: nat) in if 65 \<le> n \<and> n \<le> 90 then char_of (n + 32) else c)"

definition lower :: "string \<Rightarrow> string" where
  "lower s = map lower_char s"

text \<open>
  The characters \<^verbatim>\<open>str.strip()\<close> removes: tab, line feed, vertical tab, form feed,
  carriage return, the four separators 0x1C to 0x1F, and space.
\<close>

definition py_space :: "char \<Rightarrow> bool" where
  "py_space c = (let n = (of_char c :: nat) in (9 \<le> n \<and> n \<le> 13) \<or> (28 \<le> n \<and> n \<le> 32))"

definition strip :: "string \<Rightarrow> string" where
  "strip s = rev (dropWhile py_space (rev (dropWhile py_space s)))"

subsection \<open>shlex.split\<close>

text \<open>
  \<^verbatim>\<open>shlex.split(s)\<close> is \<^verbatim>\<open>list(lex)\<close> for a lexer in POSIX mode with
  \<^verbatim>\<open>whitespace_split = True\<close> and no comment characters. \<open>read_token\<close> follows
  \<^verbatim>\<open>shlex.read_token\<close>: the lexer state is \<open>Blank\<close> (the source's \<^verbatim>\<open>' '\<close>),
  \<open>Word\<close> (\<^verbatim>\<open>'a'\<close>), \<open>InQuote q\<close> (the quote character) or \<open>Escape\<close> (the
  backslash); the arguments after the state are \<^verbatim>\<open>escapedstate\<close>, \<^verbatim>\<open>quoted\<close>
  and \<^verbatim>\<open>self.token\<close>. Each emitted token starts the next call of
  \<^verbatim>\<open>read_token\<close> in state \<open>Blank\<close> with an empty token. In \<open>Blank\<close> the
  branches for \<^verbatim>\<open>wordchars\<close> and for \<^verbatim>\<open>whitespace_split\<close> both start a token.
\<close>

datatype lex_state = Blank | Word | InQuote char | Escape

definition shlex_whitespace :: "char \<Rightarrow> bool" where
  "shlex_whitespace c = (c = CHR '' '' \<or> c = CHR 0x09 \<or> c = CHR 0x0D \<or> c = CHR 0x0A)"

definition shlex_quote :: "char \<Rightarrow> bool" where
  "shlex_quote c = (c = CHR 0x27 \<or> c = CHR 0x22)"

definition shlex_escape :: "char \<Rightarrow> bool" where
  "shlex_escape c = (c = CHR 0x5C)"

definition emit :: "string \<Rightarrow> exn + string list \<Rightarrow> exn + string list" where
  "emit t r = (case r of Inl e \<Rightarrow> Inl e | Inr ts \<Rightarrow> Inr (t # ts))"

definition at_eof :: "bool \<Rightarrow> string \<Rightarrow> exn + string list" where
  "at_eof quoted token = (if \<not> quoted \<and> token = [] then Inr [] else Inr [token])"

fun read_token :: "lex_state \<Rightarrow> lex_state \<Rightarrow> bool \<Rightarrow> string \<Rightarrow> string \<Rightarrow> exn + string list" where
  "read_token Blank esc quoted token [] = at_eof quoted token"
| "read_token Word esc quoted token [] = at_eof quoted token"
| "read_token (InQuote q) esc quoted token [] = Inl ValueError"
| "read_token Escape esc quoted token [] = Inl ValueError"
| "read_token Blank esc quoted token (c # cs) =
     (if shlex_whitespace c then
        (if token \<noteq> [] \<or> quoted then emit token (read_token Blank Blank False [] cs)
         else read_token Blank esc quoted token cs)
      else if shlex_escape c then read_token Escape Word quoted token cs
      else if shlex_quote c then read_token (InQuote c) esc quoted token cs
      else read_token Word esc quoted [c] cs)"
| "read_token (InQuote q) esc quoted token (c # cs) =
     (if c = q then read_token Word esc True token cs
      else if shlex_escape c \<and> q = CHR 0x22 then read_token Escape (InQuote q) True token cs
      else read_token (InQuote q) esc True (token @ [c]) cs)"
| "read_token Escape esc quoted token (c # cs) =
     (case esc of
        InQuote q \<Rightarrow>
          (if \<not> shlex_escape c \<and> c \<noteq> q
           then read_token esc esc quoted (token @ [CHR 0x5C, c]) cs
           else read_token esc esc quoted (token @ [c]) cs)
      | _ \<Rightarrow> read_token esc esc quoted (token @ [c]) cs)"
| "read_token Word esc quoted token (c # cs) =
     (if shlex_whitespace c then
        (if token \<noteq> [] \<or> quoted then emit token (read_token Blank Blank False [] cs)
         else read_token Blank esc quoted token cs)
      else if shlex_quote c then read_token (InQuote c) esc quoted token cs
      else if shlex_escape c then read_token Escape Word quoted token cs
      else read_token Word esc quoted (token @ [c]) cs)"

definition shlex_split :: "string \<Rightarrow> exn + string list" where
  "shlex_split s = read_token Blank Blank False [] s"

subsection \<open>re.search with the mention pattern\<close>

text \<open>
  A compiled pattern is modelled by its search function: \<open>None\<close> when the text does not
  match, otherwise the values of the capture groups 1, 2, ... of the match, \<open>None\<close> for a
  group that took no part in it. \<^verbatim>\<open>matches.group(i)\<close> raises \<^verbatim>\<open>IndexError\<close>
  when the pattern has fewer than \<open>i\<close> groups.
\<close>

type_synonym match = "string option list"
type_synonym pattern = "string \<Rightarrow> match option"

definition match_group :: "match \<Rightarrow> nat \<Rightarrow> exn + string option" where
  "match_group m i = (if 1 \<le> i \<and> i \<le> length m then Inr (m ! (i - 1)) else Inl IndexError)"

text \<open>
  The default pattern \<^verbatim>\<open>^<@(|[WU].+?)>(.*)\<close>. The dot matches every character but
  the line feed. \<open>until_gt\<close> is the lazy extension of \<^verbatim>\<open>.+?\<close> after its first
  character: it stops at the first \<^verbatim>\<open>>\<close>, since \<^verbatim>\<open>(.*)\<close> then always
  succeeds.
\<close>

definition line_feed :: char where
  "line_feed = CHR 0x0A"

fun until_gt :: "string \<Rightarrow> (string \<times> string) option" where
  "until_gt [] = None"
| "until_gt (c # cs) =
     (if c = CHR ''>'' then Some ([], cs)
      else if c = line_feed then None
      else (case until_gt cs of None \<Rightarrow> None | Some (m, r) \<Rightarrow> Some (c # m, r)))"

fun dot_plus_lazy :: "string \<Rightarrow> (string \<times> string) option" where
  "dot_plus_lazy [] = None"
| "dot_plus_lazy (c # cs) =
     (if c = line_feed then None
      else (case until_gt cs of None \<Rightarrow> None | Some (m, r) \<Rightarrow> Some (c # m, r)))"

definition dot_star :: "string \<Rightarrow> string" where
  "dot_star s = takeWhile (\<lambda>c. c \<noteq> line_feed) s"

fun default_mention_regex :: pattern where
  "default_mention_regex (a # b # c # cs) =
     (if a = CHR ''<'' \<and> b = CHR ''@'' then
        (if c = CHR ''>'' then Some [Some [], Some (dot_star cs)]
         else if c = CHR ''W'' \<or> c = CHR ''U'' then
           (case dot_plus_lazy cs of
              None \<Rightarrow> None
            | Some (m, r) \<Rightarrow> Some [Some (c # m), Some (dot_star r)])
         else None)
      else None)"
| "default_mention_regex _ = None"

subsection \<open>The command registry\<close>

text \<open>
  What a handler does when it is called with keyword arguments: the messages it enqueues
  with \<^verbatim>\<open>Slackish.send\<close>, in order, and the exception it ends with, if any (a
  \<^verbatim>\<open>TypeError\<close> for keyword arguments its signature does not take included).
\<close>

type_synonym kwargs = "(string \<times> string) list"
type_synonym handler = "kwargs \<Rightarrow> string list \<times> exn option"

text \<open>A registry entry: the dict with the keys \<^verbatim>\<open>'cmd'\<close>, \<^verbatim>\<open>'argnames'\<close>, \<^verbatim>\<open>'help'\<close>.\<close>

record command =
  cmd :: handler
  argnames :: "string list"
  help_text :: "string option"

text \<open>A Python function as \<^verbatim>\<open>Command.__init__\<close> reads it.\<close>

record pyfn =
  fn_name :: string
  co_varnames :: "string list"
  fn_doc :: "string option"
  fn_call :: handler

text \<open>
  The registry is a Python dict: an association list with distinct keys, in insertion
  order. Assigning to a key that is present keeps its place, a new key goes last.
\<close>

type_synonym registry = "(string \<times> command) list"

definition Command :: "registry \<Rightarrow> pyfn \<Rightarrow> registry" where
  "Command reg fn =
     AList.update (fn_name fn)
       \<lparr>cmd = fn_call fn, argnames = co_varnames fn, help_text = fn_doc fn\<rparr> reg"

subsection \<open>The session\<close>

text \<open>
  \<open>sent\<close> is the log of the calls \<^verbatim>\<open>web_client.chat_postMessage(channel, text)\<close>,
  oldest first; the transport itself is outside the code, and a call of it is taken to
  return. \<open>channel\<close> is \<open>None\<close> until \<^verbatim>\<open>handle\<close> assigns it: \<^verbatim>\<open>__init__\<close>
  creates no such attribute, and a post before the assignment raises
  \<^verbatim>\<open>AttributeError\<close> in the code, so what is proved about posts is proved for a
  channel that is set. An event is the
  dict \<^verbatim>\<open>payload['data']\<close>, reduced to the three keys the code reads; \<open>None\<close> is an
  absent key.
\<close>

record slack_event =
  event_subtype :: "string option"
  event_text :: "string option"
  event_channel :: "string option"

record slackish =
  MENTION_REGEX :: pattern
  BOT_ID :: "string option"
  registry :: registry
  channel :: "string option"
  message_queue :: "string list"
  sent :: "(string option \<times> string option) list"

text \<open>
  The keyword arguments \<^verbatim>\<open>__init__\<close> reads with \<^verbatim>\<open>kwargs.get\<close>; \<open>None\<close> is an
  absent key. The token is only handed to the transport and is left out.
\<close>

record config =
  cfg_MENTION_REGEX :: "pattern option"
  cfg_BOT_ID :: "string option"

definition Slackish_init :: "registry \<Rightarrow> config \<Rightarrow> slackish" where
  "Slackish_init reg kwargs =
     \<lparr>MENTION_REGEX =
        (case cfg_MENTION_REGEX kwargs of None \<Rightarrow> default_mention_regex | Some p \<Rightarrow> p),
      BOT_ID = cfg_BOT_ID kwargs,
      registry = reg,
      channel = None,
      message_queue = [],
      sent = []\<rparr>"

definition default_error_message :: string where
  "default_error_message = ''Something went wrong!''"

definition send :: "slackish \<Rightarrow> string \<Rightarrow> slackish" where
  "send self message = self\<lparr>message_queue := message_queue self @ [message]\<rparr>"

definition parse_direct_mention :: "slackish \<Rightarrow> string \<Rightarrow> exn + (string option \<times> string option)" where
  "parse_direct_mention self message_text =
     (case MENTION_REGEX self message_text of
        None \<Rightarrow> Inr (None, None)
      | Some matches \<Rightarrow>
          (case match_group matches 1 of
             Inl e \<Rightarrow> Inl e
           | Inr g1 \<Rightarrow>
               (case match_group matches 2 of
                  Inl e \<Rightarrow> Inl e
                | Inr None \<Rightarrow> Inl AttributeError
                | Inr (Some g2) \<Rightarrow> Inr (g1, Some (strip g2)))))"

definition parse_bot_commands :: "slackish \<Rightarrow> slack_event \<Rightarrow> exn + (string option \<times> string option)" where
  "parse_bot_commands self ev =
     (if event_subtype ev = None then
        (case event_text ev of
           None \<Rightarrow> Inl KeyError
         | Some t \<Rightarrow>
             (case parse_direct_mention self t of
                Inl e \<Rightarrow> Inl e
              | Inr (user_id, message) \<Rightarrow>
                  (if user_id = BOT_ID self then
                     (case event_channel ev of
                        None \<Rightarrow> Inl KeyError
                      | Some ch \<Rightarrow> Inr (message, Some ch))
                   else Inr (None, None))))
      else Inr (None, None))"

fun pairs :: "'a list \<Rightarrow> ('a \<times> 'a) list" where
  "pairs (k # v # rest) = (k, v) # pairs rest"
| "pairs _ = []"

definition list_to_dict :: "string list \<Rightarrow> kwargs" where
  "list_to_dict alist = foldl (\<lambda>d (k, v). AList.update k v d) [] (pairs alist)"

definition post :: "slackish \<Rightarrow> string option \<Rightarrow> slackish" where
  "post self message = self\<lparr>sent := sent self @ [(channel self, message)]\<rparr>"

definition error :: "slackish \<Rightarrow> string option \<Rightarrow> slackish" where
  "error self error_message =
     self\<lparr>sent := sent self @
       [(channel self,
         Some (''Error: '' @
           (case error_message of
              None \<Rightarrow> default_error_message
            | Some m \<Rightarrow> if m = [] then default_error_message else m)))]\<rparr>"

text \<open>
  \<^verbatim>\<open>cmd_help\<close> with a command posts that command's help and raises
  \<^verbatim>\<open>KeyError\<close> when it is not registered; without one (or with an empty one) it
  iterates over the keys of the registry and looks each one up.
\<close>

definition help_all :: "slackish \<Rightarrow> slackish" where
  "help_all self =
     foldl (\<lambda>b k. case map_of (registry self) k of
                     None \<Rightarrow> b
                   | Some d \<Rightarrow> post b (help_text d))
       self (map fst (registry self))"

definition cmd_help :: "slackish \<Rightarrow> string option \<Rightarrow> exn option \<times> slackish" where
  "cmd_help self command =
     (case command of
        None \<Rightarrow> (None, help_all self)
      | Some c \<Rightarrow>
          (if c = [] then (None, help_all self)
           else (case map_of (registry self) c of
                   None \<Rightarrow> (Some KeyError, self)
                 | Some d \<Rightarrow> (None, post self (help_text d)))))"

text \<open>
  The body of the \<^verbatim>\<open>try\<close> in \<^verbatim>\<open>command_to_fn_call\<close>: the lookup of the
  command key, then the call of the handler with the keyword arguments.
\<close>

definition call_command :: "slackish \<Rightarrow> string \<Rightarrow> string list \<Rightarrow> exn option \<times> slackish" where
  "call_command self command_key args =
     (case map_of (registry self) command_key of
        None \<Rightarrow> (Some KeyError, self)
      | Some d \<Rightarrow>
          (case cmd d (list_to_dict args) of
             (msgs, r) \<Rightarrow> (r, foldl send self msgs)))"

definition command_to_fn_call :: "slackish \<Rightarrow> string \<Rightarrow> exn option \<times> slackish" where
  "command_to_fn_call self command =
     (case shlex_split command of
        Inl e \<Rightarrow> (Some e, self)
      | Inr command_words \<Rightarrow>
          (case command_words of
             [] \<Rightarrow> (Some IndexError, self)
           | w # args \<Rightarrow>
               (case call_command self (lower w) args of
                  (Some KeyError, b) \<Rightarrow> cmd_help (error b (Some ''Invalid command!'')) None
                | r \<Rightarrow> r)))"

definition flush :: "slackish \<Rightarrow> string list \<Rightarrow> slackish" where
  "flush self queue = foldl (\<lambda>b message. post b (Some message)) self queue"

text \<open>
  The last two statements of \<^verbatim>\<open>handle\<close>: the queue is flushed, then replaced by
  an empty list.
\<close>

definition flush_and_reset :: "slackish \<Rightarrow> slackish" where
  "flush_and_reset self = (flush self (message_queue self))\<lparr>message_queue := []\<rparr>"

definition fallback_message :: string where
  "fallback_message = ''I'' @ [CHR 0x27] @ ''m sorry, I don'' @ [CHR 0x27] @ ''t understand! ''"

definition handle :: "slackish \<Rightarrow> slack_event \<Rightarrow> exn option \<times> slackish" where
  "handle self ev =
     (case parse_bot_commands self ev of
        Inl e \<Rightarrow> (Some e, self)
      | Inr (command, ch) \<Rightarrow>
          (case command of
             None \<Rightarrow> (None, self)
           | Some c \<Rightarrow>
               (if c = [] then (None, self)
                else
                  (case command_to_fn_call (self\<lparr>channel := ch\<rparr>) c of
                     (None, b) \<Rightarrow> (None, flush_and_reset b)
                   | (Some e, b) \<Rightarrow>
                       (if is_Exception e then
                          (case cmd_help (post b (Some fallback_message)) None of
                             (None, b') \<Rightarrow> (None, flush_and_reset b')
                           | (Some e', b') \<Rightarrow> (Some e', b'))
                        else (Some e, b))))))"

subsection \<open>Example handlers\<close>

text \<open>
  Two handlers for concrete runs: the first enqueues one message \<open>key=value\<close> for each
  keyword argument it was called with, the second raises \<^verbatim>\<open>KeyError\<close> at once.
\<close>

definition echo_kwargs :: handler where
  "echo_kwargs kw = (map (\<lambda>(k, v). k @ ''='' @ v) kw, None)"

definition raise_KeyError :: handler where
  "raise_KeyError kw = ([], Some KeyError)"

subsection \<open>Identities the default pattern reads back\<close>

text \<open>
  The identities \<open>bid\<close> for which the default pattern finds \<open>bid\<close> itself in
  \<^verbatim>\<open><@bid>\<close>: the empty one, and those that begin with \<^verbatim>\<open>W\<close> or \<^verbatim>\<open>U\<close>, go
  on with at least one more character, and hold no line feed and, after the second
  character, no \<^verbatim>\<open>>\<close>.
\<close>

fun slack_style_id :: "string \<Rightarrow> bool" where
  "slack_style_id [] = True"
| "slack_style_id [c] = False"
| "slack_style_id (c # d # ds) =
     ((c = CHR ''W'' \<or> c = CHR ''U'') \<and> d \<noteq> line_feed
      \<and> CHR ''>'' \<notin> set ds \<and> line_feed \<notin> set ds)"

text \<open>A registry of three commands and a session over it, for concrete runs.\<close>

definition demo_registry :: registry where
  "demo_registry =
     [(''ping'', \<lparr>cmd = echo_kwargs, argnames = [], help_text = Some ''ping: echo''\<rparr>),
      (''setname'', \<lparr>cmd = echo_kwargs, argnames = [''name''], help_text = Some ''setname: name NAME''\<rparr>),
      (''boom'', \<lparr>cmd = raise_KeyError, argnames = [], help_text = None\<rparr>)]"

definition demo_bot :: slackish where
  "demo_bot = Slackish_init demo_registry \<lparr>cfg_MENTION_REGEX = None, cfg_BOT_ID = Some ''U1''\<rparr>"

section \<open>Properties\<close>

subsection \<open>Posting and flushing\<close>

lemma post_fields:
  "channel (post b m) = channel b"
  "registry (post b m) = registry b"
  "message_queue (post b m) = message_queue b"
  "sent (post b m) = sent b @ [(channel b, m)]"
  by (simp_all add: post_def)

lemma flush_eq:
  "flush b q = b\<lparr>sent := sent b @ map (\<lambda>m. (channel b, Some m)) q\<rparr>"
  by (induction q arbitrary: b) (simp_all add: flush_def post_def)

text \<open>
  C4: the flush at the end of \<^verbatim>\<open>handle\<close> (the call of \<^verbatim>\<open>flush\<close> followed by the
  reset of \<^verbatim>\<open>Slackish.message_queue\<close>) leaves the outbound queue empty, after having
  sent every queued message, in order, to the current channel; on an empty queue the
  call of \<^verbatim>\<open>flush\<close> sends nothing, and the whole step changes nothing.
\<close>

theorem flush_leaves_queue_empty:
  "message_queue (flush_and_reset self) = []
   \<and> sent (flush_and_reset self)
       = sent self @ map (\<lambda>m. (channel self, Some m)) (message_queue self)
   \<and> flush self [] = self
   \<and> flush_and_reset (self\<lparr>message_queue := []\<rparr>) = self\<lparr>message_queue := []\<rparr>"
  by (simp add: flush_and_reset_def flush_eq)

subsection \<open>Events that are not commands\<close>

text \<open>
  C6: an event that carries a \<^verbatim>\<open>subtype\<close> field is not parsed
  (\<^verbatim>\<open>parse_bot_commands\<close> returns \<^verbatim>\<open>(None, None)\<close>), and \<^verbatim>\<open>handle\<close> returns
  without raising and without changing the session: nothing is sent, nothing is queued.
\<close>

theorem subtype_event_discarded:
  "event_subtype ev = Some s \<Longrightarrow>
     parse_bot_commands self ev = Inr (None, None) \<and> handle self ev = (None, self)"
  by (simp add: parse_bot_commands_def handle_def)

theorem subtype_event_discarded_witness:
  "parse_bot_commands (Slackish_init [] \<lparr>cfg_MENTION_REGEX = None, cfg_BOT_ID = Some ''U1''\<rparr>)
       \<lparr>event_subtype = Some ''message_changed'', event_text = Some ''<@U1> ping'',
        event_channel = Some ''C1''\<rparr> = Inr (None, None)
   \<and> handle (Slackish_init [] \<lparr>cfg_MENTION_REGEX = None, cfg_BOT_ID = Some ''U1''\<rparr>)
       \<lparr>event_subtype = Some ''message_changed'', event_text = Some ''<@U1> ping'',
        event_channel = Some ''C1''\<rparr>
     = (None, Slackish_init [] \<lparr>cfg_MENTION_REGEX = None, cfg_BOT_ID = Some ''U1''\<rparr>)"
  using subtype_event_discarded
    [of "\<lparr>event_subtype = Some ''message_changed'', event_text = Some ''<@U1> ping'',
        event_channel = Some ''C1''\<rparr>" "''message_changed''"
        "Slackish_init [] \<lparr>cfg_MENTION_REGEX = None, cfg_BOT_ID = Some ''U1''\<rparr>"]
  by simp

subsection \<open>Command lines without a token\<close>

lemma read_token_blank:
  "\<forall>c\<in>set cs. shlex_whitespace c \<Longrightarrow> read_token Blank esc False [] cs = Inr []"
  by (induction cs) (simp_all add: at_eof_def)

lemma shlex_split_blank: "\<forall>c\<in>set s. shlex_whitespace c \<Longrightarrow> shlex_split s = Inr []"
  by (simp add: shlex_split_def read_token_blank)

text \<open>
  C5: when the command line splits into no token at all, \<^verbatim>\<open>command_words[0]\<close> raises
  \<^verbatim>\<open>IndexError\<close> before the \<^verbatim>\<open>try\<close> is entered: \<^verbatim>\<open>command_to_fn_call\<close>
  does not catch it, posts nothing, and hands the exception to its caller.
\<close>

theorem empty_command_IndexError:
  "shlex_split command = Inr [] \<Longrightarrow> command_to_fn_call self command = (Some IndexError, self)"
  by (simp add: command_to_fn_call_def)

theorem empty_command_IndexError_witness:
  "shlex_split ''  '' = Inr []
   \<and> command_to_fn_call
       (Slackish_init [] \<lparr>cfg_MENTION_REGEX = None, cfg_BOT_ID = Some ''U1''\<rparr>) ''  ''
     = (Some IndexError, Slackish_init [] \<lparr>cfg_MENTION_REGEX = None, cfg_BOT_ID = Some ''U1''\<rparr>)"
proof -
  have h: "shlex_split ''  '' = Inr []"
    by (rule shlex_split_blank) (simp add: shlex_whitespace_def)
  show ?thesis
    using h empty_command_IndexError [OF h] by simp
qed

subsection \<open>The mention parser\<close>

lemma group_simps:
  "match_group (g1 # gs) (Suc 0) = Inr g1" "match_group (g1 # g2 # gs) 2 = Inr g2"
  by (simp_all add: match_group_def)

lemma parse_direct_mention_match:
  "MENTION_REGEX self t = Some (g1 # Some g2 # gs) \<Longrightarrow>
     parse_direct_mention self t = Inr (g1, Some (strip g2))"
  by (simp add: parse_direct_mention_def group_simps)

lemma parse_direct_mention_None_iff:
  "(parse_direct_mention self t = Inr (None, None)) = (MENTION_REGEX self t = None)"
  by (auto simp: parse_direct_mention_def split: option.splits sum.splits)

text \<open>
  C7: \<^verbatim>\<open>parse_direct_mention\<close> returns \<^verbatim>\<open>(None, None)\<close> exactly when the configured
  pattern does not match the text; when it matches and has its two capture groups, the
  second taking part in the match, the result is the first group and the second group
  stripped of surrounding whitespace.
\<close>

theorem direct_mention_result:
  "((parse_direct_mention self t = Inr (None, None)) = (MENTION_REGEX self t = None))
   \<and> (MENTION_REGEX self t = Some (g1 # Some g2 # gs) \<longrightarrow>
        parse_direct_mention self t = Inr (g1, Some (strip g2)))"
  by (simp add: parse_direct_mention_None_iff parse_direct_mention_match)

lemma default_regex_empty_id:
  "default_mention_regex (''<@>'' @ rest) = Some [Some [], Some (dot_star rest)]"
  by simp

lemma until_gt_append:
  "CHR ''>'' \<notin> set xs \<Longrightarrow> line_feed \<notin> set xs \<Longrightarrow>
     until_gt (xs @ CHR ''>'' # rest) = Some (xs, rest)"
  by (induction xs) auto

lemma default_regex_slack_id:
  "slack_style_id bid \<Longrightarrow>
     default_mention_regex (''<@'' @ bid @ ''>'' @ rest) = Some [Some bid, Some (dot_star rest)]"
  by (cases bid rule: slack_style_id.cases) (auto simp: until_gt_append)

lemma strip_foo_bar: "strip (dot_star '' foo bar'') = ''foo bar''"
  by (simp add: strip_def dot_star_def py_space_def line_feed_def)

text \<open>
  C10: under the default pattern the empty identity is accepted: \<^verbatim>\<open><@> text\<close> is a
  mention of \<^verbatim>\<open>""\<close> with remainder \<^verbatim>\<open>text\<close>, and so is every text that begins
  with \<^verbatim>\<open><@>\<close>; identities that begin with \<^verbatim>\<open>U\<close> or \<^verbatim>\<open>W\<close> are accepted too.
\<close>

theorem empty_identity_accepted:
  "parse_direct_mention (Slackish_init reg \<lparr>cfg_MENTION_REGEX = None, cfg_BOT_ID = b\<rparr>)
       ''<@> text'' = Inr (Some [], Some ''text'')
   \<and> parse_direct_mention (Slackish_init reg \<lparr>cfg_MENTION_REGEX = None, cfg_BOT_ID = b\<rparr>)
       (''<@>'' @ rest) = Inr (Some [], Some (strip (dot_star rest)))
   \<and> parse_direct_mention (Slackish_init reg \<lparr>cfg_MENTION_REGEX = None, cfg_BOT_ID = b\<rparr>)
       ''<@U123> text'' = Inr (Some ''U123'', Some ''text'')
   \<and> parse_direct_mention (Slackish_init reg \<lparr>cfg_MENTION_REGEX = None, cfg_BOT_ID = b\<rparr>)
       ''<@W9Z> text'' = Inr (Some ''W9Z'', Some ''text'')"
  by (simp add: parse_direct_mention_def Slackish_init_def group_simps strip_def dot_star_def
      py_space_def line_feed_def)


theorem direct_mention_result_witness:
  "MENTION_REGEX (Slackish_init [] \<lparr>cfg_MENTION_REGEX = None, cfg_BOT_ID = Some ''U123''\<rparr>)
       ''<@U123>  hi '' = Some [Some ''U123'', Some ''  hi '']
   \<and> parse_direct_mention (Slackish_init [] \<lparr>cfg_MENTION_REGEX = None, cfg_BOT_ID = Some ''U123''\<rparr>)
       ''<@U123>  hi '' = Inr (Some ''U123'', Some ''hi'')
   \<and> MENTION_REGEX (Slackish_init [] \<lparr>cfg_MENTION_REGEX = None, cfg_BOT_ID = Some ''U123''\<rparr>)
       ''hello'' = None
   \<and> parse_direct_mention (Slackish_init [] \<lparr>cfg_MENTION_REGEX = None, cfg_BOT_ID = Some ''U123''\<rparr>)
       ''hello'' = Inr (None, None)"
proof -
  let ?b = "Slackish_init [] \<lparr>cfg_MENTION_REGEX = None, cfg_BOT_ID = Some ''U123''\<rparr>"
  have m: "MENTION_REGEX ?b ''<@U123>  hi '' = Some [Some ''U123'', Some ''  hi '']"
    by (simp add: Slackish_init_def dot_star_def line_feed_def)
  have n: "MENTION_REGEX ?b ''hello'' = None"
    by (simp add: Slackish_init_def)
  have s: "strip ''  hi '' = ''hi''"
    by (simp add: strip_def py_space_def)
  show ?thesis
    using m n s
      direct_mention_result [of ?b "''<@U123>  hi ''" "Some ''U123''" "''  hi ''" "[]"]
      direct_mention_result [of ?b "''hello''"]
    by simp
qed

text \<open>
  C8, as amended: under the default pattern, for a bot identity that is empty or
  Slack-style (\<open>slack_style_id\<close>), an event without subtype whose text is
  \<^verbatim>\<open><@BOTID>\<close> followed by \<open>rest\<close> and whose channel is \<open>c\<close> parses to the stripped
  first line of \<open>rest\<close> and \<open>c\<close>; for the text \<^verbatim>\<open><@BOTID> foo bar\<close> that is
  \<^verbatim>\<open>("foo bar", c)\<close>. Under any pattern, when the text is a mention of an identity
  other than the bot's, the result is \<^verbatim>\<open>(None, None)\<close>.
\<close>

theorem bot_command_of_mention:
  "(MENTION_REGEX self = default_mention_regex \<and> BOT_ID self = Some bid \<and> slack_style_id bid
      \<and> event_subtype ev = None \<and> event_text ev = Some (''<@'' @ bid @ ''>'' @ rest)
      \<and> event_channel ev = Some c
     \<longrightarrow> parse_bot_commands self ev = Inr (Some (strip (dot_star rest)), Some c)
         \<and> (rest = '' foo bar'' \<longrightarrow> parse_bot_commands self ev = Inr (Some ''foo bar'', Some c)))
   \<and> (event_subtype ev = None \<and> event_text ev = Some t
      \<and> parse_direct_mention self t = Inr (user_id, message) \<and> user_id \<noteq> BOT_ID self
     \<longrightarrow> parse_bot_commands self ev = Inr (None, None))"
proof (intro conjI impI)
  assume a: "MENTION_REGEX self = default_mention_regex \<and> BOT_ID self = Some bid
      \<and> slack_style_id bid \<and> event_subtype ev = None
      \<and> event_text ev = Some (''<@'' @ bid @ ''>'' @ rest) \<and> event_channel ev = Some c"
  then have "MENTION_REGEX self (''<@'' @ bid @ ''>'' @ rest) = Some [Some bid, Some (dot_star rest)]"
    using default_regex_slack_id [of bid rest] by simp
  then have "parse_direct_mention self (''<@'' @ bid @ ''>'' @ rest)
      = Inr (Some bid, Some (strip (dot_star rest)))"
    by (rule parse_direct_mention_match)
  with a show r: "parse_bot_commands self ev = Inr (Some (strip (dot_star rest)), Some c)"
    by (simp add: parse_bot_commands_def)
  assume "rest = '' foo bar''"
  with r show "parse_bot_commands self ev = Inr (Some ''foo bar'', Some c)"
    by (simp add: strip_foo_bar)
next
  assume "event_subtype ev = None \<and> event_text ev = Some t
      \<and> parse_direct_mention self t = Inr (user_id, message) \<and> user_id \<noteq> BOT_ID self"
  then show "parse_bot_commands self ev = Inr (None, None)"
    by (simp add: parse_bot_commands_def)
qed

theorem bot_command_of_mention_witness:
  "parse_bot_commands (Slackish_init [] \<lparr>cfg_MENTION_REGEX = None, cfg_BOT_ID = Some ''U123''\<rparr>)
     \<lparr>event_subtype = None, event_text = Some ''<@U123> foo bar'', event_channel = Some ''C1''\<rparr>
     = Inr (Some ''foo bar'', Some ''C1'')
   \<and> parse_direct_mention (Slackish_init [] \<lparr>cfg_MENTION_REGEX = None, cfg_BOT_ID = Some ''U123''\<rparr>)
       ''<@U999> foo bar'' = Inr (Some ''U999'', Some ''foo bar'')
   \<and> parse_bot_commands (Slackish_init [] \<lparr>cfg_MENTION_REGEX = None, cfg_BOT_ID = Some ''U123''\<rparr>)
     \<lparr>event_subtype = None, event_text = Some ''<@U999> foo bar'', event_channel = Some ''C1''\<rparr>
     = Inr (None, None)"
proof -
  let ?b = "Slackish_init [] \<lparr>cfg_MENTION_REGEX = None, cfg_BOT_ID = Some ''U123''\<rparr>"
  have p: "parse_direct_mention ?b ''<@U999> foo bar'' = Inr (Some ''U999'', Some ''foo bar'')"
    by (simp add: parse_direct_mention_def Slackish_init_def group_simps strip_def dot_star_def
        py_space_def line_feed_def)
  have f: "MENTION_REGEX ?b = default_mention_regex" "BOT_ID ?b = Some ''U123''"
    by (simp_all add: Slackish_init_def)
  have i: "slack_style_id ''U123''"
    by (simp add: line_feed_def)
  have e: "parse_bot_commands ?b
      \<lparr>event_subtype = None, event_text = Some ''<@U123> foo bar'', event_channel = Some ''C1''\<rparr>
      = Inr (Some ''foo bar'', Some ''C1'')"
    using f i
      bot_command_of_mention [of ?b "''U123''"
        "\<lparr>event_subtype = None, event_text = Some ''<@U123> foo bar'', event_channel = Some ''C1''\<rparr>"
        "'' foo bar''" "''C1''" "[]" None None]
    by (simp add: strip_foo_bar)
  have d: "parse_bot_commands ?b
      \<lparr>event_subtype = None, event_text = Some ''<@U999> foo bar'', event_channel = Some ''C1''\<rparr>
      = Inr (None, None)"
    using p f
      bot_command_of_mention [of ?b "[]"
        "\<lparr>event_subtype = None, event_text = Some ''<@U999> foo bar'', event_channel = Some ''C1''\<rparr>"
        "[]" "[]" "''<@U999> foo bar''" "Some ''U999''" "Some ''foo bar''"]
    by simp
  from e p d show ?thesis by simp
qed

text \<open>
  C8 as stated fails for a bot identity the default pattern does not accept: with the
  identity \<^verbatim>\<open>BOT1\<close> the text \<^verbatim>\<open><@BOT1> foo bar\<close> is no mention at all.
\<close>

theorem unstyled_identity_counterexample:
  "parse_bot_commands (Slackish_init [] \<lparr>cfg_MENTION_REGEX = None, cfg_BOT_ID = Some ''BOT1''\<rparr>)
     \<lparr>event_subtype = None, event_text = Some ''<@BOT1> foo bar'', event_channel = Some ''C1''\<rparr>
     = Inr (None, None)
   \<and> parse_bot_commands (Slackish_init [] \<lparr>cfg_MENTION_REGEX = None, cfg_BOT_ID = Some ''BOT1''\<rparr>)
     \<lparr>event_subtype = None, event_text = Some ''<@BOT1> foo bar'', event_channel = Some ''C1''\<rparr>
     \<noteq> Inr (Some ''foo bar'', Some ''C1'')"
  by (simp add: parse_bot_commands_def parse_direct_mention_def Slackish_init_def)

subsection \<open>Registration\<close>

lemma Command_lookup:
  "map_of (Command reg fn) (fn_name fn)
     = Some \<lparr>cmd = fn_call fn, argnames = co_varnames fn, help_text = fn_doc fn\<rparr>"
  by (simp add: Command_def update_conv')

lemma Command_other:
  "k \<noteq> fn_name fn \<Longrightarrow> map_of (Command reg fn) k = map_of reg k"
  by (simp add: Command_def update_conv')

lemma Command_keys_again:
  "fn_name fn' = fn_name fn \<Longrightarrow>
     map fst (Command (Command reg fn) fn') = map fst (Command reg fn)"
  by (simp add: Command_def update_keys)

lemma Command_distinct:
  "distinct (map fst reg) \<Longrightarrow> distinct (map fst (Command reg fn))"
  by (simp add: Command_def distinct_update)

text \<open>
  C9, as amended: after a function is registered, the lookup by its name as it was
  registered returns exactly its descriptor (the handler, the variable names, the help
  text); the lookup by the lowercased name does so when the name is already in lower
  case. Registering a second function of the same name raises nothing, replaces the
  descriptor in place and adds no key. Keys stay distinct.
\<close>

theorem registered_lookup:
  "map_of (Command reg fn) (fn_name fn)
     = Some \<lparr>cmd = fn_call fn, argnames = co_varnames fn, help_text = fn_doc fn\<rparr>
   \<and> (lower (fn_name fn) = fn_name fn \<longrightarrow>
        map_of (Command reg fn) (lower (fn_name fn))
          = Some \<lparr>cmd = fn_call fn, argnames = co_varnames fn, help_text = fn_doc fn\<rparr>)
   \<and> (fn_name fn' = fn_name fn \<longrightarrow>
        map_of (Command (Command reg fn) fn') (fn_name fn)
          = Some \<lparr>cmd = fn_call fn', argnames = co_varnames fn', help_text = fn_doc fn'\<rparr>
        \<and> map fst (Command (Command reg fn) fn') = map fst (Command reg fn))
   \<and> (distinct (map fst reg) \<longrightarrow> distinct (map fst (Command reg fn)))"
  using Command_lookup [of reg fn] Command_lookup [of "Command reg fn" fn']
    Command_keys_again [of fn' fn reg] Command_distinct [of reg fn]
  by auto

theorem registered_lookup_witness:
  "lower ''ping'' = ''ping''
   \<and> map_of (Command []
        \<lparr>fn_name = ''ping'', co_varnames = [], fn_doc = Some ''first'', fn_call = echo_kwargs\<rparr>)
        (lower ''ping'')
       = Some \<lparr>cmd = echo_kwargs, argnames = [], help_text = Some ''first''\<rparr>
   \<and> map_of (Command (Command []
        \<lparr>fn_name = ''ping'', co_varnames = [], fn_doc = Some ''first'', fn_call = echo_kwargs\<rparr>)
        \<lparr>fn_name = ''ping'', co_varnames = [''x''], fn_doc = Some ''second'',
         fn_call = raise_KeyError\<rparr>) ''ping''
       = Some \<lparr>cmd = raise_KeyError, argnames = [''x''], help_text = Some ''second''\<rparr>
   \<and> map fst (Command (Command []
        \<lparr>fn_name = ''ping'', co_varnames = [], fn_doc = Some ''first'', fn_call = echo_kwargs\<rparr>)
        \<lparr>fn_name = ''ping'', co_varnames = [''x''], fn_doc = Some ''second'',
         fn_call = raise_KeyError\<rparr>) = [''ping'']
   \<and> distinct (map fst (Command []
        \<lparr>fn_name = ''ping'', co_varnames = [], fn_doc = Some ''first'', fn_call = echo_kwargs\<rparr>))"
proof -
  have l: "lower ''ping'' = ''ping''"
    by (simp add: lower_def lower_char_def)
  have k: "map fst (Command []
        \<lparr>fn_name = ''ping'', co_varnames = [], fn_doc = Some ''first'', fn_call = echo_kwargs\<rparr>)
      = [''ping'']"
    by (simp add: Command_def)
  show ?thesis
    using l k
      registered_lookup [of "[]"
        "\<lparr>fn_name = ''ping'', co_varnames = [], fn_doc = Some ''first'', fn_call = echo_kwargs\<rparr>"
        "\<lparr>fn_name = ''ping'', co_varnames = [''x''], fn_doc = Some ''second'',
          fn_call = raise_KeyError\<rparr>"]
    by simp
qed

text \<open>
  C9 as stated fails for a function whose name has a capital letter: the key is the name
  as written, and the lowercased name is not in the registry.
\<close>

theorem capitalised_name_counterexample:
  "lower ''Ping'' = ''ping''
   \<and> map_of (Command []
        \<lparr>fn_name = ''Ping'', co_varnames = [], fn_doc = Some ''ping'', fn_call = echo_kwargs\<rparr>)
        (lower ''Ping'') = None
   \<and> map_of (Command []
        \<lparr>fn_name = ''Ping'', co_varnames = [], fn_doc = Some ''ping'', fn_call = echo_kwargs\<rparr>)
        (lower ''Ping'')
       \<noteq> Some \<lparr>cmd = echo_kwargs, argnames = [], help_text = Some ''ping''\<rparr>"
proof -
  have l: "lower ''Ping'' = ''ping''"
    by code_simp
  show ?thesis
    unfolding l by (simp add: Command_def)
qed

subsection \<open>The dispatcher\<close>

lemma help_fold:
  "foldl (\<lambda>b k. case map_of reg k of None \<Rightarrow> b | Some d \<Rightarrow> post b (help_text d)) b ks
     = b\<lparr>sent := sent b @
          List.map_filter (\<lambda>k. map_option (\<lambda>d. (channel b, help_text d)) (map_of reg k)) ks\<rparr>"
proof (induction ks arbitrary: b)
  case Nil
  then show ?case by (simp add: List.map_filter_simps)
next
  case (Cons k ks)
  then show ?case
    by (cases "map_of reg k") (simp_all add: List.map_filter_simps post_def)
qed

lemma map_filter_entries:
  "distinct (map fst reg) \<Longrightarrow> set ps \<subseteq> set reg \<Longrightarrow>
     List.map_filter (\<lambda>k. map_option (\<lambda>d. (ch, help_text d)) (map_of reg k)) (map fst ps)
       = map (\<lambda>(k, d). (ch, help_text d)) ps"
  by (induction ps) (auto simp: List.map_filter_simps)

lemma help_all_eq:
  "distinct (map fst (registry self)) \<Longrightarrow>
     help_all self
       = self\<lparr>sent := sent self @ map (\<lambda>(k, d). (channel self, help_text d)) (registry self)\<rparr>"
  by (simp add: help_all_def help_fold map_filter_entries)

lemma invalid_command_posts:
  "distinct (map fst (registry b)) \<Longrightarrow>
     cmd_help (error b (Some ''Invalid command!'')) None
       = (None, b\<lparr>sent := sent b @ (channel b, Some ''Error: Invalid command!'')
                    # map (\<lambda>(k, d). (channel b, help_text d)) (registry b)\<rparr>)"
  by (simp add: cmd_help_def error_def help_all_eq)

lemma call_command_unknown:
  "map_of (registry self) k = None \<Longrightarrow> call_command self k args = (Some KeyError, self)"
  by (simp add: call_command_def)

lemma call_command_known:
  "map_of (registry self) k = Some d \<Longrightarrow> cmd d (list_to_dict args) = (msgs, r) \<Longrightarrow>
     call_command self k args = (r, foldl send self msgs)"
  by (simp add: call_command_def)

lemma dispatch_words:
  "shlex_split command = Inr (w # args) \<Longrightarrow>
     command_to_fn_call self command
       = (case call_command self (lower w) args of
            (Some KeyError, b) \<Rightarrow> cmd_help (error b (Some ''Invalid command!'')) None
          | r \<Rightarrow> r)"
  by (simp add: command_to_fn_call_def)

text \<open>
  C2: on a session whose channel is set (as \<^verbatim>\<open>handle\<close> sets it before it
  dispatches), when the command line splits into at least one token and the lowercased
  first token is no key of the registry, \<^verbatim>\<open>command_to_fn_call\<close> raises nothing,
  calls no handler (the queue is unchanged) and posts to that channel exactly the
  message \<^verbatim>\<open>Error: Invalid command!\<close> followed by the help text of every registered
  command, one post each, in the order of the registry.
\<close>

theorem unknown_command_help:
  assumes "shlex_split command = Inr (w # args)"
    and "map_of (registry self) (lower w) = None"
    and "distinct (map fst (registry self))"
    and "channel self = Some ch"
  shows "command_to_fn_call self command
     = (None, self\<lparr>sent := sent self @ (Some ch, Some ''Error: Invalid command!'')
                      # map (\<lambda>(k, d). (Some ch, help_text d)) (registry self)\<rparr>)"
  using assms
  by (simp add: dispatch_words call_command_unknown invalid_command_posts)

lemma foldl_send_fields:
  "foldl send b msgs = b\<lparr>message_queue := message_queue b @ msgs\<rparr>"
  by (induction msgs arbitrary: b) (simp_all add: send_def)

lemma pairs_length: "length (pairs xs) = length xs div 2"
  by (induction xs rule: pairs.induct) simp_all

lemma pairs_nth:
  "i < length xs div 2 \<Longrightarrow> pairs xs ! i = (xs ! (2 * i), xs ! (2 * i + 1))"
proof (induction xs arbitrary: i rule: pairs.induct)
  case (1 k v rest)
  then show ?case by (cases i) simp_all
qed simp_all

lemma pairs_odd: "odd (length xs) \<Longrightarrow> pairs xs = pairs (butlast xs)"
proof (induction xs rule: pairs.induct)
  case (1 k v rest)
  then have "rest \<noteq> []" by auto
  with 1 show ?case by simp
qed simp_all

lemma map_of_fold_update:
  "map_of (foldl (\<lambda>d (k, v). AList.update k v d) acc ps) = map_of acc ++ map_of (rev ps)"
proof (induction ps arbitrary: acc)
  case Nil
  then show ?case by simp
next
  case (Cons p ps)
  obtain k v where p: "p = (k, v)" by (cases p)
  have "map_of (AList.update k v acc) ++ map_of (rev ps)
      = map_of acc ++ (map_of [(k, v)] ++ map_of (rev ps))"
    by (auto simp: update_conv' fun_eq_iff map_add_def split: option.splits)
  with Cons p show ?case by simp
qed

lemma list_to_dict_map: "map_of (list_to_dict args) = map_of (rev (pairs args))"
  by (simp add: list_to_dict_def map_of_fold_update)


lemma demo_bot_fields:
  "registry demo_bot = demo_registry" "sent demo_bot = []" "message_queue demo_bot = []"
  "channel demo_bot = None" "BOT_ID demo_bot = Some ''U1''"
  "MENTION_REGEX demo_bot = default_mention_regex"
  by (simp_all add: demo_bot_def Slackish_init_def)

lemma demo_registry_keys: "map fst demo_registry = [''ping'', ''setname'', ''boom'']"
  by (simp add: demo_registry_def)

theorem unknown_command_help_witness:
  "shlex_split ''frobnicate'' = Inr [''frobnicate'']
   \<and> map_of (registry (demo_bot\<lparr>channel := Some ''C1''\<rparr>)) (lower ''frobnicate'') = None
   \<and> distinct (map fst (registry (demo_bot\<lparr>channel := Some ''C1''\<rparr>)))
   \<and> channel (demo_bot\<lparr>channel := Some ''C1''\<rparr>) = Some ''C1''
   \<and> command_to_fn_call (demo_bot\<lparr>channel := Some ''C1''\<rparr>) ''frobnicate''
     = (None, demo_bot\<lparr>channel := Some ''C1'',
          sent := [(Some ''C1'', Some ''Error: Invalid command!''),
                   (Some ''C1'', Some ''ping: echo''),
                   (Some ''C1'', Some ''setname: name NAME''),
                   (Some ''C1'', None)]\<rparr>)"
proof -
  let ?b = "demo_bot\<lparr>channel := Some ''C1''\<rparr>"
  have s: "shlex_split ''frobnicate'' = Inr [''frobnicate'']"
    by code_simp
  have l: "lower ''frobnicate'' = ''frobnicate''"
    by code_simp
  have m: "map_of (registry ?b) (lower ''frobnicate'') = None"
    unfolding l by (simp add: demo_bot_fields demo_registry_def)
  have d: "distinct (map fst (registry ?b))"
    by (simp add: demo_bot_fields demo_registry_keys)
  have c: "channel ?b = Some ''C1''"
    by simp
  show ?thesis
    using s m d c unknown_command_help [OF s m d c]
    by (simp add: demo_bot_fields demo_registry_def)
qed

text \<open>
  C3, as amended: for a command line whose lowercased first token is registered, the
  handler is called with the keyword arguments \<^verbatim>\<open>list_to_dict\<close> builds from the tokens
  after the command key: token \<open>2i\<close> is a key and token \<open>2i + 1\<close> its value, a later
  pair overriding an earlier one with the same key, and with an odd number of tokens
  the last one is dropped. So \<^verbatim>\<open>setname Alice extra\<close> calls the handler with
  \<^verbatim>\<open>{Alice: "extra"}\<close>, and \<^verbatim>\<open>setname name Alice extra\<close> calls it with
  \<^verbatim>\<open>{name: "Alice"}\<close>.
\<close>

theorem kwargs_from_token_pairs:
  "(shlex_split command = Inr (w # args) \<and> map_of (registry self) (lower w) = Some d
      \<and> cmd d (list_to_dict args) = (msgs, r)
     \<longrightarrow> command_to_fn_call self command
          = (if r = Some KeyError
             then cmd_help (error (foldl send self msgs) (Some ''Invalid command!'')) None
             else (r, foldl send self msgs)))
   \<and> map_of (list_to_dict args) = map_of (rev (pairs args))
   \<and> length (pairs args) = length args div 2
   \<and> (\<forall>i < length args div 2. pairs args ! i = (args ! (2 * i), args ! (2 * i + 1)))
   \<and> (odd (length args) \<longrightarrow> list_to_dict args = list_to_dict (butlast args))
   \<and> shlex_split ''setname Alice extra'' = Inr [''setname'', ''Alice'', ''extra'']
   \<and> list_to_dict [''Alice'', ''extra''] = [(''Alice'', ''extra'')]
   \<and> shlex_split ''setname name Alice extra'' = Inr [''setname'', ''name'', ''Alice'', ''extra'']
   \<and> list_to_dict [''name'', ''Alice'', ''extra''] = [(''name'', ''Alice'')]"
proof -
  have call: "shlex_split command = Inr (w # args) \<and> map_of (registry self) (lower w) = Some d
      \<and> cmd d (list_to_dict args) = (msgs, r)
     \<longrightarrow> command_to_fn_call self command
          = (if r = Some KeyError
             then cmd_help (error (foldl send self msgs) (Some ''Invalid command!'')) None
             else (r, foldl send self msgs))"
  proof
    assume a: "shlex_split command = Inr (w # args) \<and> map_of (registry self) (lower w) = Some d
      \<and> cmd d (list_to_dict args) = (msgs, r)"
    then have "call_command self (lower w) args = (r, foldl send self msgs)"
      by (simp add: call_command_known)
    with a show "command_to_fn_call self command
          = (if r = Some KeyError
             then cmd_help (error (foldl send self msgs) (Some ''Invalid command!'')) None
             else (r, foldl send self msgs))"
      by (auto simp: dispatch_words split: option.splits exn.splits)
  qed
  have odd: "odd (length args) \<longrightarrow> list_to_dict args = list_to_dict (butlast args)"
    by (simp add: list_to_dict_def pairs_odd)
  have s1: "shlex_split ''setname Alice extra'' = Inr [''setname'', ''Alice'', ''extra'']"
    by code_simp
  have s2: "shlex_split ''setname name Alice extra''
      = Inr [''setname'', ''name'', ''Alice'', ''extra'']"
    by code_simp
  have d1: "list_to_dict [''Alice'', ''extra''] = [(''Alice'', ''extra'')]"
    by (simp add: list_to_dict_def)
  have d2: "list_to_dict [''name'', ''Alice'', ''extra''] = [(''name'', ''Alice'')]"
    by (simp add: list_to_dict_def)
  show ?thesis
    using call odd s1 s2 d1 d2
    by (simp add: list_to_dict_map pairs_length pairs_nth)
qed

theorem kwargs_from_token_pairs_witness:
  "shlex_split ''setname name Alice extra'' = Inr [''setname'', ''name'', ''Alice'', ''extra'']
   \<and> map_of (registry demo_bot) (lower ''setname'')
       = Some \<lparr>cmd = echo_kwargs, argnames = [''name''], help_text = Some ''setname: name NAME''\<rparr>
   \<and> echo_kwargs (list_to_dict [''name'', ''Alice'', ''extra'']) = ([''name=Alice''], None)
   \<and> command_to_fn_call demo_bot ''setname name Alice extra''
       = (None, demo_bot\<lparr>message_queue := [''name=Alice'']\<rparr>)
   \<and> odd (length [''name'', ''Alice'', ''extra''])
   \<and> list_to_dict [''name'', ''Alice'', ''extra''] = list_to_dict [''name'', ''Alice'']"
proof -
  let ?d = "\<lparr>cmd = echo_kwargs, argnames = [''name''], help_text = Some ''setname: name NAME''\<rparr>"
  let ?args = "[''name'', ''Alice'', ''extra'']"
  note T = kwargs_from_token_pairs [of "''setname name Alice extra''" "''setname''"
        ?args demo_bot ?d "[''name=Alice'']" None]
  have l: "lower ''setname'' = ''setname''"
    by code_simp
  have m: "map_of (registry demo_bot) (lower ''setname'') = Some ?d"
    unfolding l by (simp add: demo_bot_fields demo_registry_def)
  have e: "echo_kwargs (list_to_dict ?args) = ([''name=Alice''], None)"
    by (simp add: list_to_dict_def echo_kwargs_def)
  then have e': "cmd ?d (list_to_dict ?args) = ([''name=Alice''], None)"
    by simp
  have q: "foldl send demo_bot [''name=Alice''] = demo_bot\<lparr>message_queue := [''name=Alice'']\<rparr>"
    by (simp add: send_def demo_bot_fields)
  from T have s: "shlex_split ''setname name Alice extra''
      = Inr [''setname'', ''name'', ''Alice'', ''extra'']"
    by blast
  from T s m e' have "command_to_fn_call demo_bot ''setname name Alice extra''
      = (if None = Some KeyError
         then cmd_help (error (foldl send demo_bot [''name=Alice'']) (Some ''Invalid command!'')) None
         else (None, foldl send demo_bot [''name=Alice'']))"
    by blast
  then have c: "command_to_fn_call demo_bot ''setname name Alice extra''
      = (None, demo_bot\<lparr>message_queue := [''name=Alice'']\<rparr>)"
    unfolding q by simp
  have o: "odd (length ?args)"
    by simp
  with T have b: "list_to_dict ?args = list_to_dict (butlast ?args)"
    by blast
  from s m e c o b show ?thesis
    by simp
qed

text \<open>
  C3 as stated fails at its own example: in \<^verbatim>\<open>setname Alice extra\<close> the command key
  \<^verbatim>\<open>setname\<close> is not among the paired tokens, the two tokens after it make the one
  pair \<^verbatim>\<open>Alice: "extra"\<close>, and nothing is dropped.
\<close>

theorem setname_Alice_counterexample:
  "command_to_fn_call demo_bot ''setname Alice extra''
     = (None, demo_bot\<lparr>message_queue := [''Alice=extra'']\<rparr>)
   \<and> fst (echo_kwargs [(''setname'', ''Alice'')]) = [''setname=Alice'']
   \<and> message_queue (snd (command_to_fn_call demo_bot ''setname Alice extra''))
       \<noteq> fst (echo_kwargs [(''setname'', ''Alice'')])"
proof -
  have s: "shlex_split ''setname Alice extra'' = Inr [''setname'', ''Alice'', ''extra'']"
    by code_simp
  have l: "lower ''setname'' = ''setname''"
    by code_simp
  have m: "map_of (registry demo_bot) (lower ''setname'')
      = Some \<lparr>cmd = echo_kwargs, argnames = [''name''], help_text = Some ''setname: name NAME''\<rparr>"
    unfolding l by (simp add: demo_bot_fields demo_registry_def)
  have c: "call_command demo_bot (lower ''setname'') [''Alice'', ''extra'']
      = (None, demo_bot\<lparr>message_queue := [''Alice=extra'']\<rparr>)"
    using call_command_known [OF m, of "[''Alice'', ''extra'']" "[''Alice=extra'']" None]
    by (simp add: list_to_dict_def echo_kwargs_def send_def demo_bot_fields)
  have r: "command_to_fn_call demo_bot ''setname Alice extra''
      = (None, demo_bot\<lparr>message_queue := [''Alice=extra'']\<rparr>)"
    by (simp add: dispatch_words [OF s] c)
  show ?thesis
    by (simp add: r echo_kwargs_def)
qed

subsection \<open>Handlers that raise\<close>

lemma handle_command:
  "parse_bot_commands self ev = Inr (Some c, ch) \<Longrightarrow> c \<noteq> [] \<Longrightarrow>
     handle self ev
       = (case command_to_fn_call (self\<lparr>channel := ch\<rparr>) c of
            (None, b) \<Rightarrow> (None, flush_and_reset b)
          | (Some e, b) \<Rightarrow>
              (if is_Exception e then
                 (case cmd_help (post b (Some fallback_message)) None of
                    (None, b') \<Rightarrow> (None, flush_and_reset b')
                  | (Some e', b') \<Rightarrow> (Some e', b'))
               else (Some e, b)))"
  by (simp add: handle_def)

lemma fallback_posts:
  "distinct (map fst (registry b)) \<Longrightarrow>
     cmd_help (post b (Some fallback_message)) None
       = (None, b\<lparr>sent := sent b @ (channel b, Some fallback_message)
                    # map (\<lambda>(k, d). (channel b, help_text d)) (registry b)\<rparr>)"
  by (simp add: cmd_help_def post_def help_all_eq)

lemma flush_and_reset_eq:
  "flush_and_reset b
     = b\<lparr>message_queue := [],
         sent := sent b @ map (\<lambda>m. (channel b, Some m)) (message_queue b)\<rparr>"
  by (simp add: flush_and_reset_def flush_eq)

lemma dispatch_handler_raises:
  assumes "shlex_split c = Inr (w # args)"
    and "map_of (registry self) (lower w) = Some d"
    and "cmd d (list_to_dict args) = (msgs, Some e)"
    and "e \<noteq> KeyError"
  shows "command_to_fn_call self c = (Some e, self\<lparr>message_queue := message_queue self @ msgs\<rparr>)"
  using assms
  by (cases e) (simp_all add: dispatch_words call_command_known foldl_send_fields)

lemma dispatch_handler_KeyError:
  assumes "shlex_split c = Inr (w # args)"
    and "map_of (registry self) (lower w) = Some d"
    and "cmd d (list_to_dict args) = (msgs, Some KeyError)"
    and "distinct (map fst (registry self))"
  shows "command_to_fn_call self c
     = (None, self\<lparr>message_queue := message_queue self @ msgs,
                     sent := sent self @ (channel self, Some ''Error: Invalid command!'')
                       # map (\<lambda>(k, d). (channel self, help_text d)) (registry self)\<rparr>)"
  using assms
  by (simp add: dispatch_words call_command_known foldl_send_fields invalid_command_posts)

text \<open>
  An \<^verbatim>\<open>Exception\<close> other than \<^verbatim>\<open>KeyError\<close> raised by the handler leaves
  \<^verbatim>\<open>command_to_fn_call\<close> and is caught in \<^verbatim>\<open>handle\<close>: the fallback message and
  the help of every command are posted, then the queue (with what the handler had
  enqueued before it raised) is flushed, and nothing is raised further.
\<close>

lemma handler_exception_fallback:
  assumes "parse_bot_commands self ev = Inr (Some c, ch)" and "c \<noteq> []"
    and "shlex_split c = Inr (w # args)"
    and "map_of (registry self) (lower w) = Some d"
    and "cmd d (list_to_dict args) = (msgs, Some e)"
    and "is_Exception e" and "e \<noteq> KeyError"
    and "distinct (map fst (registry self))"
  shows "handle self ev
     = (None, self\<lparr>channel := ch, message_queue := [],
                     sent := sent self @ (ch, Some fallback_message)
                       # map (\<lambda>(k, d). (ch, help_text d)) (registry self)
                       @ map (\<lambda>m. (ch, Some m)) (message_queue self @ msgs)\<rparr>)"
proof -
  let ?s = "self\<lparr>channel := ch\<rparr>"
  have "command_to_fn_call ?s c = (Some e, ?s\<lparr>message_queue := message_queue ?s @ msgs\<rparr>)"
    using assms by (intro dispatch_handler_raises [where w = w and args = args and d = d]) simp_all
  with assms show ?thesis
    by (simp add: handle_command fallback_posts flush_and_reset_eq)
qed

text \<open>
  A \<^verbatim>\<open>KeyError\<close> raised by the handler is caught by the \<^verbatim>\<open>except KeyError\<close> of
  \<^verbatim>\<open>command_to_fn_call\<close>, whose \<^verbatim>\<open>try\<close> holds the call as well as the lookup: it
  is reported as an invalid command and never reaches \<^verbatim>\<open>handle\<close>.
\<close>

lemma handler_KeyError_invalid_command:
  assumes "parse_bot_commands self ev = Inr (Some c, ch)" and "c \<noteq> []"
    and "shlex_split c = Inr (w # args)"
    and "map_of (registry self) (lower w) = Some d"
    and "cmd d (list_to_dict args) = (msgs, Some KeyError)"
    and "distinct (map fst (registry self))"
  shows "handle self ev
     = (None, self\<lparr>channel := ch, message_queue := [],
                     sent := sent self @ (ch, Some ''Error: Invalid command!'')
                       # map (\<lambda>(k, d). (ch, help_text d)) (registry self)
                       @ map (\<lambda>m. (ch, Some m)) (message_queue self @ msgs)\<rparr>)"
proof -
  let ?s = "self\<lparr>channel := ch\<rparr>"
  have "command_to_fn_call ?s c
     = (None, ?s\<lparr>message_queue := message_queue ?s @ msgs,
                   sent := sent ?s @ (channel ?s, Some ''Error: Invalid command!'')
                       # map (\<lambda>(k, d). (channel ?s, help_text d)) (registry ?s)\<rparr>)"
    using assms by (intro dispatch_handler_KeyError [where w = w and args = args and d = d]) simp_all
  with assms show ?thesis
    by (simp add: handle_command flush_and_reset_eq)
qed

text \<open>
  What is no \<^verbatim>\<open>Exception\<close> passes through \<^verbatim>\<open>except Exception\<close>; the queue is
  then neither flushed nor reset.
\<close>

lemma handler_base_exception_propagates:
  assumes "parse_bot_commands self ev = Inr (Some c, ch)" and "c \<noteq> []"
    and "shlex_split c = Inr (w # args)"
    and "map_of (registry self) (lower w) = Some d"
    and "cmd d (list_to_dict args) = (msgs, Some e)"
    and "\<not> is_Exception e"
  shows "handle self ev
     = (Some e, self\<lparr>channel := ch, message_queue := message_queue self @ msgs\<rparr>)"
proof -
  let ?s = "self\<lparr>channel := ch\<rparr>"
  from assms have "e \<noteq> KeyError" by auto
  then have "command_to_fn_call ?s c = (Some e, ?s\<lparr>message_queue := message_queue ?s @ msgs\<rparr>)"
    using assms by (intro dispatch_handler_raises [where w = w and args = args and d = d]) simp_all
  with assms show ?thesis
    by (simp add: handle_command)
qed

lemma demo_parse:
  "parse_bot_commands demo_bot
     \<lparr>event_subtype = None, event_text = Some (''<@U1> '' @ c), event_channel = Some ch\<rparr>
     = Inr (Some (strip (dot_star (CHR '' '' # c))), Some ch)"
proof -
  have "default_mention_regex (''<@'' @ ''U1'' @ ''>'' @ (CHR '' '' # c))
      = Some [Some ''U1'', Some (dot_star (CHR '' '' # c))]"
    by (rule default_regex_slack_id) (simp add: line_feed_def)
  then have "parse_direct_mention demo_bot (''<@U1> '' @ c)
      = Inr (Some ''U1'', Some (strip (dot_star (CHR '' '' # c))))"
    by (intro parse_direct_mention_match) (simp add: demo_bot_fields)
  then show ?thesis
    by (simp add: parse_bot_commands_def demo_bot_fields)
qed

text \<open>
  C1: a handler's error is to be caught in \<^verbatim>\<open>handle\<close> and answered with the fallback
  message and the help. Run on the command \<^verbatim>\<open>boom\<close>, whose handler raises
  \<^verbatim>\<open>KeyError\<close>, the code answers with \<^verbatim>\<open>Error: Invalid command!\<close> and the help
  instead, and the fallback message is not among the posts.
\<close>

theorem handler_KeyError_taken_for_unknown_command:
  "handle demo_bot
     \<lparr>event_subtype = None, event_text = Some ''<@U1> boom'', event_channel = Some ''C1''\<rparr>
     = (None, demo_bot\<lparr>channel := Some ''C1'',
          sent := [(Some ''C1'', Some ''Error: Invalid command!''),
                   (Some ''C1'', Some ''ping: echo''),
                   (Some ''C1'', Some ''setname: name NAME''),
                   (Some ''C1'', None)]\<rparr>)
   \<and> (Some ''C1'', Some fallback_message)
       \<notin> set (sent (snd (handle demo_bot
            \<lparr>event_subtype = None, event_text = Some ''<@U1> boom'',
             event_channel = Some ''C1''\<rparr>)))"
proof -
  let ?ev = "\<lparr>event_subtype = None, event_text = Some ''<@U1> boom'', event_channel = Some ''C1''\<rparr>"
  have st: "strip (dot_star '' boom'') = ''boom''"
    by code_simp
  have p: "parse_bot_commands demo_bot ?ev = Inr (Some ''boom'', Some ''C1'')"
    using demo_parse [of "''boom''" "''C1''"] by (simp add: st)
  have s: "shlex_split ''boom'' = Inr [''boom'']"
    by code_simp
  have l: "lower ''boom'' = ''boom''"
    by code_simp
  have m: "map_of (registry demo_bot) (lower ''boom'')
      = Some \<lparr>cmd = raise_KeyError, argnames = [], help_text = None\<rparr>"
    unfolding l by (simp add: demo_bot_fields demo_registry_def)
  have k: "cmd \<lparr>cmd = raise_KeyError, argnames = [], help_text = None\<rparr> (list_to_dict [])
      = ([], Some KeyError)"
    by (simp add: raise_KeyError_def)
  have d: "distinct (map fst (registry demo_bot))"
    by (simp add: demo_bot_fields demo_registry_keys)
  have f: "fallback_message \<noteq> ''Error: Invalid command!''"
    "fallback_message \<noteq> ''ping: echo''" "fallback_message \<noteq> ''setname: name NAME''"
    by (simp_all add: fallback_message_def)
  have h: "handle demo_bot ?ev
     = (None, demo_bot\<lparr>channel := Some ''C1'',
          sent := [(Some ''C1'', Some ''Error: Invalid command!''),
                   (Some ''C1'', Some ''ping: echo''),
                   (Some ''C1'', Some ''setname: name NAME''),
                   (Some ''C1'', None)]\<rparr>)"
    using handler_KeyError_invalid_command [OF p _ s m k d]
    by (simp add: demo_bot_fields demo_registry_def)
  show ?thesis
    unfolding h using f by simp
qed

end
